theory Spec2Isabelle
  imports Main "HOL-Library.Word"
begin

unbundle bit_operations_syntax

section \<open>C integer conversions\<close>

type_synonym byte = "8 word"

text \<open>
  Conversion of a C \<open>int\<close> to \<open>int8_t\<close>: the low eight bits, read as two's complement.
  Every driver function keeps the \<open>int\<close> result of a bus call in an \<open>int8_t\<close> and
  returns an \<open>int8_t\<close>.
\<close>

definition int8_t :: "int \<Rightarrow> int" where
  "int8_t x = signed_take_bit 7 x"

text \<open>
  \<open>lo | (hi << 8)\<close> on two \<open>uint8_t\<close> operands, stored into an \<open>int16_t\<close>: both bytes
  are promoted to \<open>int\<close>, combined, and the result is cut to sixteen bits.
\<close>

definition int16_of_bytes :: "byte \<Rightarrow> byte \<Rightarrow> 16 word" where
  "int16_of_bytes lo hi = ucast ((ucast lo :: 32 word) OR push_bit 8 (ucast hi :: 32 word))"

section \<open>Bus transport\<close>

text \<open>
  The two bus primitives come from the board's SDK, not from this repository. A bus is
  given by what the two calls do to a bus state \<open>'b\<close>: a write takes the device address,
  the bytes, the \<open>nostop\<close> flag and the per-character timeout and reports an \<open>int\<close>; a read
  takes the address, the length, \<open>nostop\<close> and the timeout and reports an \<open>int\<close> together
  with the contents of the destination buffer after the call (position \<open>i\<close> of the
  destination, for \<open>i\<close> below the length).
\<close>

record 'b i2c_bus =
  i2c_write_timeout_per_char_us :: "'b \<Rightarrow> byte \<Rightarrow> byte list \<Rightarrow> bool \<Rightarrow> nat \<Rightarrow> int \<times> 'b"
  i2c_read_timeout_per_char_us :: "'b \<Rightarrow> byte \<Rightarrow> nat \<Rightarrow> bool \<Rightarrow> nat \<Rightarrow> int \<times> (nat \<Rightarrow> byte) \<times> 'b"

text \<open>The SDK's error results (\<open>pico/error.h\<close>); a successful call reports the byte count.\<close>

definition PICO_ERROR_TIMEOUT :: int where
  "PICO_ERROR_TIMEOUT = -1"

definition PICO_ERROR_GENERIC :: int where
  "PICO_ERROR_GENERIC = -2"

text \<open>What a bus call on \<open>len\<close> bytes can report: an error, or a count up to \<open>len\<close>.\<close>

definition sdk_result :: "nat \<Rightarrow> int \<Rightarrow> bool" where
  "sdk_result len r \<longleftrightarrow>
     r = PICO_ERROR_TIMEOUT \<or> r = PICO_ERROR_GENERIC \<or> (0 \<le> r \<and> r \<le> int len)"

section \<open>Magnetometer driver (lib/qmc5883l/qmc5883l.c)\<close>

subsection \<open>Declarations of qmc5883l.h\<close>

text \<open>
  The header \<open>qmc5883l.h\<close> is not among the sources. The register names are the ones the
  driver uses; every constant of the header is a field of \<open>qmc_header\<close>, a parameter of
  the driver functions below.
\<close>

datatype QMCRegister =
  QMC_XOUT_LSB | QMC_STATUS | QMC_TEMP_LSB | QMC_TEMP_MSB
  | QMC_CONTROL1 | QMC_CONTROL2 | QMC_SETRESET

record qmc_header =
  QMC_ADDR :: byte
  QMC_TIMEOUT :: nat
  QMCRegister_value :: "QMCRegister \<Rightarrow> byte"
  QMC_MODE_SHIFT :: nat
  QMC_ODR_SHIFT :: nat
  QMC_OSR_SHIFT :: nat
  QMC_SCALE_SHIFT :: nat
  QMC_ROL_PNT :: nat
  QMC_INT_ENB :: nat
  QMC_DRDY :: nat
  QMC_DOVL :: nat
  QMC_DSKIP :: nat
  QMC_STANDBY :: "32 word"
  QMC_OK :: int
  QMC_ERROR_TIMEOUT :: int
  QMC_ERROR_GENERIC :: int
  QMC_ERROR_INVALID :: int
  QMC_ERROR_STANDBY :: int

text \<open>
  \<open>struct qmc_cfg\<close>: the field types are declared in the header; every field is read
  here as the \<open>int\<close> it is promoted to in the driver's expressions. \<open>control\<close> is the
  two-byte array of raw register values.
\<close>

record qmc_cfg =
  mode :: "32 word"
  ODR :: "32 word"
  OSR :: "32 word"
  scale :: "32 word"
  pointerRoll :: "32 word"
  enableInterrupt :: "32 word"
  control :: "byte \<times> byte"

text \<open>\<open>struct qmc_status\<close>: three flags, set when the masked status bit is non-zero.\<close>

record qmc_status =
  dataReady :: bool
  dataOverflow :: bool
  dataSkip :: bool

record 'b qmc_t =
  i2c :: 'b
  config :: qmc_cfg

subsection \<open>Bus wrappers\<close>

definition QMCWriteByte ::
  "'b i2c_bus \<Rightarrow> qmc_header \<Rightarrow> 'b qmc_t \<Rightarrow> QMCRegister \<Rightarrow> byte \<Rightarrow> int \<times> 'b qmc_t" where
  "QMCWriteByte B k sensor reg val =
     (let buffer = [QMCRegister_value k reg, val] in
      case i2c_write_timeout_per_char_us B (i2c sensor) (QMC_ADDR k) buffer True (QMC_TIMEOUT k) of
        (r, bus) \<Rightarrow> (r, sensor\<lparr>i2c := bus\<rparr>))"

text \<open>The result of the selector write is dropped; only the read's result is returned.\<close>

definition QMCReadBytes ::
  "'b i2c_bus \<Rightarrow> qmc_header \<Rightarrow> 'b qmc_t \<Rightarrow> QMCRegister \<Rightarrow> nat
     \<Rightarrow> int \<times> (nat \<Rightarrow> byte) \<times> 'b qmc_t" where
  "QMCReadBytes B k sensor reg len =
     (let regShort = QMCRegister_value k reg in
      case i2c_write_timeout_per_char_us B (i2c sensor) (QMC_ADDR k) [regShort] True (QMC_TIMEOUT k) of
        (_, bus1) \<Rightarrow>
          (case i2c_read_timeout_per_char_us B bus1 (QMC_ADDR k) len False (QMC_TIMEOUT k) of
             (r, buffer, bus2) \<Rightarrow> (r, buffer, sensor\<lparr>i2c := bus2\<rparr>)))"

subsection \<open>Driver operations\<close>

definition QMCGetStatus ::
  "'b i2c_bus \<Rightarrow> qmc_header \<Rightarrow> 'b qmc_t \<Rightarrow> qmc_status \<Rightarrow> int \<times> qmc_status \<times> 'b qmc_t" where
  "QMCGetStatus B k sensor status =
     (case QMCReadBytes B k sensor QMC_STATUS 1 of
        (r, buffer, sensor1) \<Rightarrow>
          (let reg = (ucast (buffer 0) :: 32 word); i2cState = int8_t r in
           if i2cState = 1 then
             (0, status\<lparr>dataReady := (reg AND push_bit (QMC_DRDY k) 1 \<noteq> 0),
                       dataOverflow := (reg AND push_bit (QMC_DOVL k) 1 \<noteq> 0),
                       dataSkip := (reg AND push_bit (QMC_DSKIP k) 1 \<noteq> 0)\<rparr>, sensor1)
           else
             (int8_t (if i2cState = -1 then QMC_ERROR_TIMEOUT k else QMC_ERROR_GENERIC k),
              status, sensor1)))"

text \<open>The two control bytes \<open>QMCSetCfg\<close> packs: \<open>config.control[0]\<close> and \<open>config.control[1]\<close>.\<close>

definition cfg_control0 :: "qmc_header \<Rightarrow> qmc_cfg \<Rightarrow> byte" where
  "cfg_control0 k cfg =
     ucast (push_bit (QMC_MODE_SHIFT k) (mode cfg)
            OR push_bit (QMC_ODR_SHIFT k) (ODR cfg)
            OR push_bit (QMC_OSR_SHIFT k) (OSR cfg)
            OR push_bit (QMC_SCALE_SHIFT k) (scale cfg))"

definition cfg_control1 :: "qmc_header \<Rightarrow> qmc_cfg \<Rightarrow> byte" where
  "cfg_control1 k cfg =
     ucast (push_bit (QMC_ROL_PNT k) (pointerRoll cfg)
            OR push_bit (QMC_INT_ENB k) (enableInterrupt cfg))"

definition QMCSetCfg ::
  "'b i2c_bus \<Rightarrow> qmc_header \<Rightarrow> 'b qmc_t \<Rightarrow> qmc_cfg \<Rightarrow> int \<times> 'b qmc_t" where
  "QMCSetCfg B k sensor cfg =
     (let cfg' = cfg\<lparr>control := (cfg_control0 k cfg, cfg_control1 k cfg)\<rparr> in
      case QMCWriteByte B k sensor QMC_CONTROL1 (fst (control cfg')) of
        (r0, sensor1) \<Rightarrow>
          (case QMCWriteByte B k sensor1 QMC_CONTROL2 (snd (control cfg')) of
             (r1, sensor2) \<Rightarrow>
               (let i2cState0 = int8_t r0; i2cState1 = int8_t r1 in
                if i2cState0 = 2 \<and> i2cState1 = 2 then (0, sensor2\<lparr>config := cfg'\<rparr>)
                else (if i2cState0 < i2cState1 then i2cState0 else i2cState1, sensor2))))"

definition QMCGetCfg :: "'b i2c_bus \<Rightarrow> qmc_header \<Rightarrow> 'b qmc_t \<Rightarrow> int \<times> 'b qmc_t" where
  "QMCGetCfg B k sensor =
     (case QMCReadBytes B k sensor QMC_CONTROL1 1 of
        (r0, buffer0, sensor1) \<Rightarrow>
          (case QMCReadBytes B k sensor1 QMC_CONTROL2 1 of
             (r1, buffer1, sensor2) \<Rightarrow>
               (let i2cState0 = int8_t r0; i2cState1 = int8_t r1;
                    b0 = (ucast (buffer0 0) :: 32 word) in
                if i2cState0 = 1 \<and> i2cState1 = 1 then
                  (int8_t (if b0 AND 0x22 \<noteq> 0 then QMC_ERROR_INVALID k else QMC_OK k),
                   sensor2\<lparr>config := (config sensor2)
                     \<lparr>ODR := drop_bit (QMC_ODR_SHIFT k) b0 AND 3,
                      OSR := drop_bit (QMC_OSR_SHIFT k) b0 AND 3,
                      mode := b0 AND 1,
                      scale := drop_bit (QMC_SCALE_SHIFT k) b0 AND 1\<rparr>\<rparr>)
                else (if i2cState0 < i2cState1 then i2cState0 else i2cState1, sensor2))))"

definition QMCTest :: "'b i2c_bus \<Rightarrow> qmc_header \<Rightarrow> 'b qmc_t \<Rightarrow> int \<times> 'b qmc_t" where
  "QMCTest B k sensor =
     (case QMCGetCfg B k sensor of
        (cfgStatus, sensor1) \<Rightarrow>
          (if cfgStatus = 0 then
             (int8_t (if mode (config sensor1) \<noteq> QMC_STANDBY k then QMC_OK k
                      else QMC_ERROR_STANDBY k), sensor1)
           else (cfgStatus, sensor1)))"

definition QMCGetMag ::
  "'b i2c_bus \<Rightarrow> qmc_header \<Rightarrow> 'b qmc_t \<Rightarrow> 16 word \<times> 16 word \<times> 16 word
     \<Rightarrow> int \<times> (16 word \<times> 16 word \<times> 16 word) \<times> 'b qmc_t" where
  "QMCGetMag B k sensor data =
     (case QMCReadBytes B k sensor QMC_XOUT_LSB 6 of
        (r, buffer, sensor1) \<Rightarrow>
          (let i2cState = int8_t r;
               data' = (if i2cState = 6
                        then (int16_of_bytes (buffer 0) (buffer 1),
                              int16_of_bytes (buffer 2) (buffer 3),
                              int16_of_bytes (buffer 4) (buffer 5))
                        else data) in
           (int8_t (if i2cState = QMC_ERROR_TIMEOUT k then QMC_ERROR_TIMEOUT k
                    else QMC_ERROR_GENERIC k), data', sensor1)))"

definition QMCGetTemp ::
  "'b i2c_bus \<Rightarrow> qmc_header \<Rightarrow> 'b qmc_t \<Rightarrow> 16 word \<Rightarrow> int \<times> 16 word \<times> 'b qmc_t" where
  "QMCGetTemp B k sensor result =
     (case QMCReadBytes B k sensor QMC_TEMP_LSB 1 of
        (r0, buffer0, sensor1) \<Rightarrow>
          (case QMCReadBytes B k sensor1 QMC_TEMP_MSB 1 of
             (r1, buffer1, sensor2) \<Rightarrow>
               (let i2cState0 = int8_t r0; i2cState1 = int8_t r1 in
                if i2cState0 = 1 \<and> i2cState1 = 1
                then (0, int16_of_bytes (buffer0 0) (buffer1 0), sensor2)
                else (if i2cState0 < i2cState1 then i2cState0 else i2cState1, result, sensor2))))"


subsection \<open>Two buses and one header to run the driver on\<close>

text \<open>
  A register-file device: a write of \<open>r # vs\<close> selects register \<open>r\<close> and stores \<open>vs\<close>
  from there on; a read delivers the registers from the selected one on. Every call
  reports the full count. Nothing but a write changes a register.
\<close>

record chip =
  regs :: "byte \<Rightarrow> byte"
  pointer :: byte

fun store_regs :: "byte \<Rightarrow> byte list \<Rightarrow> (byte \<Rightarrow> byte) \<Rightarrow> (byte \<Rightarrow> byte)" where
  "store_regs r [] f = f"
| "store_regs r (v # vs) f = store_regs (r + 1) vs (f(r := v))"

definition chip_bus :: "chip i2c_bus" where
  "chip_bus =
     \<lparr>i2c_write_timeout_per_char_us = (\<lambda>c addr bs nostop t.
        case bs of [] \<Rightarrow> (0, c)
        | r # vs \<Rightarrow> (int (length bs), \<lparr>regs = store_regs r vs (regs c), pointer = r\<rparr>)),
      i2c_read_timeout_per_char_us = (\<lambda>c addr len nostop t.
        (int len, (\<lambda>i. regs c (pointer c + of_nat i)), c))\<rparr>"

text \<open>
  A bus on which every call times out. A timed-out read leaves the destination as it
  was: \<open>g\<close> is whatever the caller's buffer held.
\<close>

definition timeout_bus :: "(nat \<Rightarrow> byte) \<Rightarrow> unit i2c_bus" where
  "timeout_bus g =
     \<lparr>i2c_write_timeout_per_char_us = (\<lambda>b addr bs nostop t. (PICO_ERROR_TIMEOUT, b)),
      i2c_read_timeout_per_char_us = (\<lambda>b addr len nostop t. (PICO_ERROR_TIMEOUT, g, b))\<rparr>"

text \<open>
  The same bus with every write reporting \<open>c\<close> instead of what it reports; what the
  write does to the bus state is kept.
\<close>

definition with_write_report :: "int \<Rightarrow> 'b i2c_bus \<Rightarrow> 'b i2c_bus" where
  "with_write_report c B =
     B\<lparr>i2c_write_timeout_per_char_us :=
         (\<lambda>b addr bs nostop t. (c, snd (i2c_write_timeout_per_char_us B b addr bs nostop t)))\<rparr>"

text \<open>
  One header to evaluate the driver with: the register map and the bit positions of the
  QMC5883L data sheet, and error codes in the SDK's numbering.
\<close>

fun datasheet_register :: "QMCRegister \<Rightarrow> byte" where
  "datasheet_register QMC_XOUT_LSB = 0x00"
| "datasheet_register QMC_STATUS = 0x06"
| "datasheet_register QMC_TEMP_LSB = 0x07"
| "datasheet_register QMC_TEMP_MSB = 0x08"
| "datasheet_register QMC_CONTROL1 = 0x09"
| "datasheet_register QMC_CONTROL2 = 0x0A"
| "datasheet_register QMC_SETRESET = 0x0B"

definition datasheet_header :: qmc_header where
  "datasheet_header =
     \<lparr>QMC_ADDR = 0x0D, QMC_TIMEOUT = 1000, QMCRegister_value = datasheet_register,
      QMC_MODE_SHIFT = 0, QMC_ODR_SHIFT = 2, QMC_OSR_SHIFT = 6, QMC_SCALE_SHIFT = 4,
      QMC_ROL_PNT = 6, QMC_INT_ENB = 0, QMC_DRDY = 0, QMC_DOVL = 1, QMC_DSKIP = 2,
      QMC_STANDBY = 0, QMC_OK = 0, QMC_ERROR_TIMEOUT = -1, QMC_ERROR_GENERIC = -2,
      QMC_ERROR_INVALID = -3, QMC_ERROR_STANDBY = -4\<rparr>"

text \<open>
  The layouts of control register 1 under which \<open>QMCGetCfg\<close> reads back what
  \<open>QMCSetCfg\<close> packed: \<open>QMCGetCfg\<close> takes the mode from bit 0 and treats bits 1 and 5
  as reserved, so the mode sits at bit 0, the scale at bit 4, and the two two-bit fields
  fill bits 2-3 and 6-7.
\<close>

definition control1_layout :: "qmc_header \<Rightarrow> bool" where
  "control1_layout k \<longleftrightarrow>
     QMC_MODE_SHIFT k = 0 \<and> QMC_SCALE_SHIFT k = 4 \<and>
     (QMC_ODR_SHIFT k = 2 \<and> QMC_OSR_SHIFT k = 6 \<or> QMC_ODR_SHIFT k = 6 \<and> QMC_OSR_SHIFT k = 2)"

text \<open>The configurations whose four fields fit the bits control register 1 gives them.\<close>

definition cfg_in_range :: "qmc_cfg \<Rightarrow> bool" where
  "cfg_in_range cfg \<longleftrightarrow> mode cfg < 2 \<and> ODR cfg < 4 \<and> OSR cfg < 4 \<and> scale cfg < 2"

text \<open>Two device states: all registers zero, and one with a sample in the output registers.\<close>

definition chip0 :: chip where
  "chip0 = \<lparr>regs = (\<lambda>_. 0), pointer = 0\<rparr>"

definition mag_chip :: chip where
  "mag_chip =
     \<lparr>regs = (\<lambda>_. 0)(0x00 := 0x34, 0x01 := 0x12, 0x02 := 0xFF, 0x03 := 0xFF, 0x05 := 0x80),
      pointer = 0\<rparr>"

definition zero_cfg :: qmc_cfg where
  "zero_cfg = \<lparr>mode = 0, ODR = 0, OSR = 0, scale = 0, pointerRoll = 0,
               enableInterrupt = 0, control = (0, 0)\<rparr>"


section \<open>Barometric driver (lib/hp203b/hp203b.h)\<close>

subsection \<open>Declarations of hp203b.h\<close>

definition HP203_ADDR :: byte where "HP203_ADDR = 0x76"
definition HP203_TIMEOUT :: nat where "HP203_TIMEOUT = 1000"

definition HP203_RESET :: byte where "HP203_RESET = 0x06"
definition HP203_READ_PT :: byte where "HP203_READ_PT = 0x10"
definition HP203_READ_AT :: byte where "HP203_READ_AT = 0x11"
definition HP203_READ_P :: byte where "HP203_READ_P = 0x30"
definition HP203_READ_A :: byte where "HP203_READ_A = 0x31"
definition HP203_READ_T :: byte where "HP203_READ_T = 0x32"
definition HP203_ADC_SET :: byte where "HP203_ADC_SET = 0x40"
definition HP203_READ_REG :: byte where "HP203_READ_REG = 0x80"
definition HP203_WRITE_REG :: byte where "HP203_WRITE_REG = 0xC0"
definition HP203_INT_SRC :: byte where "HP203_INT_SRC = 0x0D"
definition HP203_OSR_SHIFT :: nat where "HP203_OSR_SHIFT = 2"

definition HP203_OK :: int where "HP203_OK = 0"
definition HP203_ERROR_TIMEOUT :: int where "HP203_ERROR_TIMEOUT = -1"
definition HP203_ERROR_GENERIC :: int where "HP203_ERROR_GENERIC = -2"
definition HP203_ERROR_BADCHIP :: int where "HP203_ERROR_BADCHIP = -3"

datatype HP203_CHN = HP203_PRES_TEMP | HP203_TEMP_ONLY

fun HP203_CHN_value :: "HP203_CHN \<Rightarrow> byte" where
  "HP203_CHN_value HP203_PRES_TEMP = 0x00"
| "HP203_CHN_value HP203_TEMP_ONLY = 0x01"

datatype HP203_OSR =
  HP203_OSR_4096 | HP203_OSR_2028 | HP203_OSR_1024 | HP203_OSR_512 | HP203_OSR_256 | HP203_OSR_128

fun HP203_OSR_value :: "HP203_OSR \<Rightarrow> byte" where
  "HP203_OSR_value HP203_OSR_4096 = 0x00"
| "HP203_OSR_value HP203_OSR_2028 = 0x01"
| "HP203_OSR_value HP203_OSR_1024 = 0x02"
| "HP203_OSR_value HP203_OSR_512 = 0x03"
| "HP203_OSR_value HP203_OSR_256 = 0x04"
| "HP203_OSR_value HP203_OSR_128 = 0x05"

record 'b hp203_t =
  hp203_i2c :: 'b

subsection \<open>Operations declared in the header\<close>

text \<open>
  Modelled from the spec: \<open>hp203b.c\<close>, which defines \<open>HP203Test\<close> and \<open>HP203GetPres\<close>, is
  not among the sources; the header declares them and documents their results. Section
  4.2 of the specification: the driver is a command/response protocol; every operation
  maps a bus timeout straight through and any other bus anomaly collapses to the generic
  error. \<open>hp203_status\<close> is that rule for a bus call on \<open>len\<close> bytes.
\<close>

definition hp203_status :: "nat \<Rightarrow> int \<Rightarrow> int" where
  "hp203_status len r =
     (if r = int len then HP203_OK
      else if r = PICO_ERROR_TIMEOUT then HP203_ERROR_TIMEOUT
      else HP203_ERROR_GENERIC)"

text \<open>
  Modelled from the spec: one command byte is written and \<open>len\<close> response bytes are read;
  the first bus call that does not report its full count decides the result.
\<close>

definition hp203_exchange ::
  "'b i2c_bus \<Rightarrow> 'b hp203_t \<Rightarrow> byte \<Rightarrow> nat \<Rightarrow> int \<times> (nat \<Rightarrow> byte) option \<times> 'b hp203_t" where
  "hp203_exchange B sensor cmd len =
     (case i2c_write_timeout_per_char_us B (hp203_i2c sensor) HP203_ADDR [cmd] False HP203_TIMEOUT of
        (w, bus1) \<Rightarrow>
          if hp203_status 1 w \<noteq> HP203_OK then (hp203_status 1 w, None, sensor\<lparr>hp203_i2c := bus1\<rparr>)
          else
            (case i2c_read_timeout_per_char_us B bus1 HP203_ADDR len False HP203_TIMEOUT of
               (r, buffer, bus2) \<Rightarrow>
                 if hp203_status len r \<noteq> HP203_OK
                 then (hp203_status len r, None, sensor\<lparr>hp203_i2c := bus2\<rparr>)
                 else (HP203_OK, Some buffer, sensor\<lparr>hp203_i2c := bus2\<rparr>)))"

text \<open>
  Modelled from the spec: \<open>getPressure(session) -> pascals | TimeoutError | GenericError\<close>.
  The command is the header's \<open>HP203_READ_P\<close>; how the three response bytes become
  pascals is not stated, so \<open>pascals\<close> is a parameter.
\<close>

definition HP203GetPres ::
  "'b i2c_bus \<Rightarrow> ((nat \<Rightarrow> byte) \<Rightarrow> 32 word) \<Rightarrow> 'b hp203_t \<Rightarrow> 32 word
     \<Rightarrow> int \<times> 32 word \<times> 'b hp203_t" where
  "HP203GetPres B pascals sensor result =
     (case hp203_exchange B sensor HP203_READ_P 3 of
        (st, Some buffer, sensor1) \<Rightarrow> (st, pascals buffer, sensor1)
      | (st, None, sensor1) \<Rightarrow> (st, result, sensor1))"

text \<open>
  Modelled from the spec: \<open>selfTest(session) -> Ok | TimeoutError | BadChipError |
  GenericError\<close> issues a presence probe; BadChipError signals a response inconsistent
  with the expected chip. The probe command and the test of its response byte are not
  stated, so both are parameters.
\<close>

definition HP203Test ::
  "'b i2c_bus \<Rightarrow> byte \<Rightarrow> (byte \<Rightarrow> bool) \<Rightarrow> 'b hp203_t \<Rightarrow> int \<times> 'b hp203_t" where
  "HP203Test B probe expected sensor =
     (case hp203_exchange B sensor probe 1 of
        (st, Some buffer, sensor1) \<Rightarrow>
          (if expected (buffer 0) then HP203_OK else HP203_ERROR_BADCHIP, sensor1)
      | (st, None, sensor1) \<Rightarrow> (st, sensor1))"

section \<open>Line framer (src/hat.cpp, uartRX)\<close>

definition MINMEA_MAX_SENTENCE_LENGTH :: nat where
  "MINMEA_MAX_SENTENCE_LENGTH = 80"

text \<open>
  The two file-scope buffers and the two function-scope statics of \<open>uartRX\<close>. \<open>index\<close> is
  a \<open>uint8_t\<close>. At boot the statics are zero.
\<close>

record framer =
  copying :: bool
  index :: "8 word"
  uartBuf :: string
  frameBuf :: string

definition NUL :: char where
  "NUL = CHR 0x00"

definition boot :: framer where
  "boot = \<lparr>copying = False, index = 0,
           uartBuf = replicate MINMEA_MAX_SENTENCE_LENGTH NUL,
           frameBuf = replicate MINMEA_MAX_SENTENCE_LENGTH NUL\<rparr>"

definition buffers_sized :: "framer \<Rightarrow> bool" where
  "buffers_sized s \<longleftrightarrow>
     length (uartBuf s) = MINMEA_MAX_SENTENCE_LENGTH \<and>
     length (frameBuf s) = MINMEA_MAX_SENTENCE_LENGTH"

text \<open>
  What C leaves undefined is a fault of the model: a store outside \<open>uartBuf\<close>, and a
  \<open>strstr\<close> scan that runs off the end of \<open>uartBuf\<close> (the array holds no zero byte and
  no match), whose answer depends on the memory behind the array.
\<close>

datatype fault = WriteOutOfBounds | UnterminatedString

text \<open>The C string an array holds: the bytes before the first zero.\<close>

definition c_string :: "string \<Rightarrow> string option" where
  "c_string buf = (if NUL \<in> set buf then Some (takeWhile (\<lambda>c. c \<noteq> NUL) buf) else None)"

text \<open>\<open>strstr(haystack, needle) != NULL\<close> on C strings.\<close>

fun strstr :: "string \<Rightarrow> string \<Rightarrow> bool" where
  "strstr [] needle = (needle = [])"
| "strstr (c # cs) needle = (take (length needle) (c # cs) = needle \<or> strstr cs needle)"

text \<open>
  \<open>strstr(buf, needle) != NULL\<close> on an array. The scan stops at the first match and at
  the first zero byte, whichever comes first: a match inside the array is found whether
  or not a zero byte follows it; without a match the answer is no if the array holds a
  zero byte, and otherwise the scan leaves the array (\<open>None\<close>).
\<close>

definition strstr_array :: "string \<Rightarrow> string \<Rightarrow> bool option" where
  "strstr_array buf needle =
     (if strstr (takeWhile (\<lambda>c. c \<noteq> NUL) buf) needle then Some True
      else if NUL \<in> set buf then Some False
      else None)"

text \<open>
  One invocation of the receive interrupt handler: \<open>None\<close> when the UART has nothing to
  read, \<open>Some ch\<close> for the byte \<open>uart_getc\<close> returns.
\<close>

definition uartRX :: "char option \<Rightarrow> framer \<Rightarrow> fault + framer" where
  "uartRX rx s =
     (case rx of
        None \<Rightarrow> Inr s
      | Some ch \<Rightarrow>
          (let s1 = (if ch = CHR ''$'' then s\<lparr>copying := True, index := 0\<rparr> else s) in
           if copying s1 \<and> unat (index s1) < MINMEA_MAX_SENTENCE_LENGTH then
             if unat (index s1) < length (uartBuf s1) then
               (let s2 = s1\<lparr>uartBuf := (uartBuf s1)[unat (index s1) := ch],
                           index := index s1 + 1\<rparr> in
                if ch = CHR 0x0A then
                  (case strstr_array (uartBuf s2) ''GGA'' of
                     None \<Rightarrow> Inl UnterminatedString
                   | Some found \<Rightarrow>
                       if found
                       then Inr (s2\<lparr>frameBuf := take (length (frameBuf s2)) (uartBuf s2)\<rparr>)
                       else Inr s2)
                else Inr s2)
             else Inl WriteOutOfBounds
           else Inr s1))"

text \<open>The handler run once for each byte of a received sequence.\<close>

fun feed :: "framer \<Rightarrow> string \<Rightarrow> fault + framer" where
  "feed s [] = Inr s"
| "feed s (c # cs) = (case uartRX (Some c) s of Inl e \<Rightarrow> Inl e | Inr s' \<Rightarrow> feed s' cs)"

definition CRLF :: string where
  "CRLF = [CHR 0x0D, CHR 0x0A]"

section \<open>Telemetry packet (src/hat.cpp, struct packet)\<close>

text \<open>
  \<open>struct packet\<close> under \<open>#pragma pack(1)\<close>. The arrays have three elements each.
\<close>

record packet =
  seq_no :: "32 word"
  vid :: byte
  state :: byte
  time_ms :: "32 word"
  time_utc :: "byte \<times> byte \<times> byte"
  lat :: "32 word"
  lng :: "32 word"
  sat :: byte
  pres :: "32 word"
  temp :: "16 word"
  accl :: "16 word \<times> 16 word \<times> 16 word"
  gyro :: "16 word \<times> 16 word \<times> 16 word"

text \<open>The bytes of a 16-bit and of a 32-bit object on the little-endian target.\<close>

definition bytes16 :: "16 word \<Rightarrow> byte list" where
  "bytes16 w = [ucast w, ucast (drop_bit 8 w)]"

definition bytes32 :: "32 word \<Rightarrow> byte list" where
  "bytes32 w = [ucast w, ucast (drop_bit 8 w), ucast (drop_bit 16 w), ucast (drop_bit 24 w)]"

definition bytes16x3 :: "16 word \<times> 16 word \<times> 16 word \<Rightarrow> byte list" where
  "bytes16x3 a = (case a of (x, y, z) \<Rightarrow> bytes16 x @ bytes16 y @ bytes16 z)"

text \<open>
  What \<open>hatTask\<close> hands to \<open>LoRa.write\<close>: the \<open>sizeof(struct packet)\<close> bytes at \<open>&p\<close>, that
  is the fields in declaration order with nothing between them.
\<close>

definition sizeof_packet :: nat where
  "sizeof_packet = 4 + 1 + 1 + 4 + 3 + 4 + 4 + 1 + 4 + 2 + 3 * 2 + 3 * 2"

definition packet_bytes :: "packet \<Rightarrow> byte list" where
  "packet_bytes p =
     bytes32 (seq_no p) @ [vid p] @ [state p] @ bytes32 (time_ms p)
     @ (case time_utc p of (hh, mm, ss) \<Rightarrow> [hh, mm, ss])
     @ bytes32 (lat p) @ bytes32 (lng p) @ [sat p]
     @ bytes32 (pres p) @ bytes16 (temp p)
     @ bytes16x3 (accl p) @ bytes16x3 (gyro p)"

text \<open>
  Modelled from the spec: the repository has no decoder (the packet is only sent). The
  wire layout of section 6 read back field by field: seq_no:u32, vehicle_id:u8,
  state:char, time_ms:u32, utc_hh:u8, utc_mm:u8, utc_ss:u8, lat:i32, lng:i32,
  satellites:u8, pressure:u32, temperature:i16, accel:[i16;3], gyro:[i16;3], in the byte
  order of \<open>packet_bytes\<close>.
\<close>

definition word16_of :: "byte \<Rightarrow> byte \<Rightarrow> 16 word" where
  "word16_of b0 b1 = ucast b0 OR push_bit 8 (ucast b1)"

definition word32_of :: "byte \<Rightarrow> byte \<Rightarrow> byte \<Rightarrow> byte \<Rightarrow> 32 word" where
  "word32_of b0 b1 b2 b3 =
     ucast b0 OR push_bit 8 (ucast b1) OR push_bit 16 (ucast b2) OR push_bit 24 (ucast b3)"

definition packet_of_bytes :: "byte list \<Rightarrow> packet option" where
  "packet_of_bytes bs =
     (if length bs \<noteq> sizeof_packet then None
      else Some
        \<lparr>seq_no = word32_of (bs ! 0) (bs ! 1) (bs ! 2) (bs ! 3),
         vid = bs ! 4,
         state = bs ! 5,
         time_ms = word32_of (bs ! 6) (bs ! 7) (bs ! 8) (bs ! 9),
         time_utc = (bs ! 10, bs ! 11, bs ! 12),
         lat = word32_of (bs ! 13) (bs ! 14) (bs ! 15) (bs ! 16),
         lng = word32_of (bs ! 17) (bs ! 18) (bs ! 19) (bs ! 20),
         sat = bs ! 21,
         pres = word32_of (bs ! 22) (bs ! 23) (bs ! 24) (bs ! 25),
         temp = word16_of (bs ! 26) (bs ! 27),
         accl = (word16_of (bs ! 28) (bs ! 29), word16_of (bs ! 30) (bs ! 31),
                 word16_of (bs ! 32) (bs ! 33)),
         gyro = (word16_of (bs ! 34) (bs ! 35), word16_of (bs ! 36) (bs ! 37),
                 word16_of (bs ! 38) (bs ! 39))\<rparr>)"

text \<open>The field values of the specification's example; the fields it leaves open are zero.\<close>

definition example_packet :: packet where
  "example_packet =
     \<lparr>seq_no = 7, vid = 3, state = 0x52, time_ms = 0, time_utc = (0, 0, 0),
      lat = - 33123, lng = 151456, sat = 6, pres = 101325, temp = 2150,
      accl = (1, 2, 3), gyro = (4, 5, 6)\<rparr>"


section \<open>Properties of the magnetometer driver\<close>

subsection \<open>Integer conversions and bits\<close>

lemma int8_t_id: "- 128 \<le> x \<Longrightarrow> x \<le> 127 \<Longrightarrow> int8_t x = x"
  by (simp add: int8_t_def signed_take_bit_int_eq_self)

lemma int8_t_sdk_result: "sdk_result len r \<Longrightarrow> len \<le> 127 \<Longrightarrow> int8_t r = r"
  by (rule int8_t_id) (auto simp: sdk_result_def PICO_ERROR_TIMEOUT_def PICO_ERROR_GENERIC_def)

lemma word32_less_2: "(m :: 32 word) < 2 \<Longrightarrow> m = 0 \<or> m = 1"
  by (auto simp: word_less_nat_alt word_unat_eq_iff)

lemma word32_less_4: "(m :: 32 word) < 4 \<Longrightarrow> m = 0 \<or> m = 1 \<or> m = 2 \<or> m = 3"
  by (auto simp: word_less_nat_alt word_unat_eq_iff)

lemma bit_0x22: "bit (0x22 :: 32 word) n \<longleftrightarrow> n = 1 \<or> n = 5"
proof
  assume b: "bit (0x22 :: 32 word) n"
  then have "n < 32" by (auto dest: bit_imp_le_length)
  then consider "n = 0" | "n = 1" | "n = 2" | "n = 3" | "n = 4" | "n = 5" | "n = 6" | "n = 7"
    | "8 \<le> n" "n < 32" by linarith
  then show "n = 1 \<or> n = 5"
  proof cases
    case 9
    have "(0x22 :: 32 word) < 2 ^ 8" by simp
    then have "\<not> bit (0x22 :: 32 word) n"
      using 9 by (metis bit_take_bit_iff less_mask_eq not_le take_bit_eq_mask)
    with b show ?thesis by simp
  qed (use b in simp_all)
next
  assume "n = 1 \<or> n = 5"
  then show "bit (0x22 :: 32 word) n" by (elim disjE) simp_all
qed

text \<open>The mask \<open>0x22\<close> of \<open>QMCGetCfg\<close> tests bits 1 and 5 of the register byte.\<close>

lemma reserved_bits:
  "(ucast (b :: byte) :: 32 word) AND 0x22 \<noteq> 0 \<longleftrightarrow> bit b 1 \<or> bit b 5"
proof
  assume "(ucast b :: 32 word) AND 0x22 \<noteq> 0"
  then obtain n where "bit ((ucast b :: 32 word) AND 0x22) n"
    by (auto simp: bit_eq_iff)
  then have "bit (ucast b :: 32 word) n" and "bit (0x22 :: 32 word) n"
    by (simp_all add: bit_and_iff)
  from this(1) bit_0x22 [THEN iffD1, OF this(2)]
  have "bit (ucast b :: 32 word) n" "n = 1 \<or> n = 5" .
  then show "bit b 1 \<or> bit b 5"
    by (auto simp: bit_ucast_iff)
next
  assume "bit b 1 \<or> bit b 5"
  then have "bit ((ucast b :: 32 word) AND 0x22) 1 \<or> bit ((ucast b :: 32 word) AND 0x22) 5"
    by (auto simp: bit_and_iff bit_ucast_iff)
  then show "(ucast b :: 32 word) AND 0x22 \<noteq> 0"
    by (metis bit_0_eq bot_apply bot_bool_def)
qed

lemma QMCWriteByte_config: "QMCWriteByte B k s reg v = (r, s') \<Longrightarrow> config s' = config s"
  by (auto simp: QMCWriteByte_def split: prod.splits)

lemma QMCReadBytes_config:
  "QMCReadBytes B k s reg len = (r, buf, s') \<Longrightarrow> config s' = config s"
  by (auto simp: QMCReadBytes_def Let_def split: prod.splits)

subsection \<open>Vector read\<close>

lemma QMCGetMag_result:
  assumes "QMCReadBytes B k s QMC_XOUT_LSB 6 = (r, buf, s1)"
  shows "QMCGetMag B k s data =
     (int8_t (if int8_t r = QMC_ERROR_TIMEOUT k then QMC_ERROR_TIMEOUT k
              else QMC_ERROR_GENERIC k),
      (if int8_t r = 6
       then (int16_of_bytes (buf 0) (buf 1), int16_of_bytes (buf 2) (buf 3),
             int16_of_bytes (buf 4) (buf 5))
       else data), s1)"
  using assms by (simp add: QMCGetMag_def Let_def)

text \<open>
  Claim C1. The claim says that \<open>QMCGetMag\<close> returns success whenever the burst read
  reports six bytes. On the register-file device the read of the six output registers
  reports 6 and the three components are stored little-endian, yet the value returned is
  \<open>QMC_ERROR_GENERIC\<close>, not \<open>QMC_OK\<close>: the function ends in
  \<open>i2cState == QMC_ERROR_TIMEOUT ? QMC_ERROR_TIMEOUT : QMC_ERROR_GENERIC\<close> on every path.
\<close>

theorem QMCGetMag_full_read_reports_error:
  "fst (QMCReadBytes chip_bus datasheet_header \<lparr>i2c = mag_chip, config = zero_cfg\<rparr>
          QMC_XOUT_LSB 6) = 6
   \<and> fst (QMCGetMag chip_bus datasheet_header \<lparr>i2c = mag_chip, config = zero_cfg\<rparr> (0, 0, 0))
       = QMC_ERROR_GENERIC datasheet_header
   \<and> fst (QMCGetMag chip_bus datasheet_header \<lparr>i2c = mag_chip, config = zero_cfg\<rparr> (0, 0, 0))
       \<noteq> QMC_OK datasheet_header
   \<and> fst (snd (QMCGetMag chip_bus datasheet_header \<lparr>i2c = mag_chip, config = zero_cfg\<rparr>
                 (0, 0, 0)))
       = (0x1234, 0xFFFF, 0x8000)"
  by (simp add: QMCGetMag_def QMCReadBytes_def chip_bus_def datasheet_header_def mag_chip_def
      int8_t_def int16_of_bytes_def Let_def)

subsection \<open>Configuration write and read-back\<close>

lemma rt_bits:
  assumes "(m :: 32 word) < 2" "(d :: 32 word) < 4" "(s :: 32 word) < 4" "(c :: 32 word) < 2"
  defines "b0 \<equiv> (ucast (ucast (push_bit 0 m OR push_bit 2 d OR push_bit 6 s OR push_bit 4 c)
                     :: byte) :: 32 word)"
  shows "b0 AND 1 = m \<and> drop_bit 2 b0 AND 3 = d \<and> drop_bit 6 b0 AND 3 = s
       \<and> drop_bit 4 b0 AND 1 = c \<and> b0 AND 0x22 = 0"
  using word32_less_2 [OF assms(1)] word32_less_4 [OF assms(2)]
    word32_less_4 [OF assms(3)] word32_less_2 [OF assms(4)]
  unfolding b0_def by (elim disjE) simp_all

lemma control0_decodes:
  assumes "control1_layout k" "cfg_in_range cfg"
  defines "b0 \<equiv> (ucast (cfg_control0 k cfg) :: 32 word)"
  shows "b0 AND 1 = mode cfg" "drop_bit (QMC_ODR_SHIFT k) b0 AND 3 = ODR cfg"
    "drop_bit (QMC_OSR_SHIFT k) b0 AND 3 = OSR cfg"
    "drop_bit (QMC_SCALE_SHIFT k) b0 AND 1 = scale cfg" "b0 AND 0x22 = 0"
proof -
  from assms(2) have r: "mode cfg < 2" "ODR cfg < 4" "OSR cfg < 4" "scale cfg < 2"
    by (simp_all add: cfg_in_range_def)
  from assms(1) consider
    (a) "QMC_MODE_SHIFT k = 0" "QMC_SCALE_SHIFT k = 4" "QMC_ODR_SHIFT k = 2" "QMC_OSR_SHIFT k = 6"
    | (b) "QMC_MODE_SHIFT k = 0" "QMC_SCALE_SHIFT k = 4" "QMC_ODR_SHIFT k = 6" "QMC_OSR_SHIFT k = 2"
    by (auto simp: control1_layout_def)
  then have "b0 AND 1 = mode cfg \<and> drop_bit (QMC_ODR_SHIFT k) b0 AND 3 = ODR cfg \<and>
    drop_bit (QMC_OSR_SHIFT k) b0 AND 3 = OSR cfg \<and>
    drop_bit (QMC_SCALE_SHIFT k) b0 AND 1 = scale cfg \<and> b0 AND 0x22 = 0"
  proof cases
    case a
    show ?thesis
      using rt_bits [OF r(1) r(2) r(3) r(4)] a by (simp add: b0_def cfg_control0_def)
  next
    case b
    show ?thesis
      using rt_bits [OF r(1) r(3) r(2) r(4)] b by (simp add: b0_def cfg_control0_def ac_simps)
  qed
  then show "b0 AND 1 = mode cfg" "drop_bit (QMC_ODR_SHIFT k) b0 AND 3 = ODR cfg"
    "drop_bit (QMC_OSR_SHIFT k) b0 AND 3 = OSR cfg"
    "drop_bit (QMC_SCALE_SHIFT k) b0 AND 1 = scale cfg" "b0 AND 0x22 = 0"
    by simp_all
qed

text \<open>
  Claim C2, as stated: for every configuration value, a successful \<open>QMCSetCfg\<close> followed by
  \<open>QMCGetCfg\<close> on an unchanged chip yields the mode that was set. It fails for a mode
  outside one bit: with \<open>mode = 2\<close> both writes report two bytes and \<open>QMCSetCfg\<close> returns
  0 and caches the mode 2; \<open>QMCGetCfg\<close> then reads the byte back, decodes the mode as
  \<open>buffer[0] & 1\<close>, which is 0, and reports the configuration as invalid, since bit 1 of
  control register 1 is one of the two it treats as reserved.
\<close>

theorem QMCSetCfg_QMCGetCfg_mode_2_not_read_back:
  "fst (QMCSetCfg chip_bus datasheet_header \<lparr>i2c = chip0, config = zero_cfg\<rparr>
          (zero_cfg\<lparr>mode := 2\<rparr>)) = 0
   \<and> mode (config (snd (QMCSetCfg chip_bus datasheet_header \<lparr>i2c = chip0, config = zero_cfg\<rparr>
                (zero_cfg\<lparr>mode := 2\<rparr>)))) = 2
   \<and> fst (QMCGetCfg chip_bus datasheet_header
        (snd (QMCSetCfg chip_bus datasheet_header \<lparr>i2c = chip0, config = zero_cfg\<rparr>
                (zero_cfg\<lparr>mode := 2\<rparr>))))
     = QMC_ERROR_INVALID datasheet_header
   \<and> mode (config (snd (QMCGetCfg chip_bus datasheet_header
        (snd (QMCSetCfg chip_bus datasheet_header \<lparr>i2c = chip0, config = zero_cfg\<rparr>
                (zero_cfg\<lparr>mode := 2\<rparr>))))))
     \<noteq> mode (zero_cfg\<lparr>mode := 2\<rparr>)"
  by (simp add: QMCWriteByte_def QMCReadBytes_def QMCSetCfg_def QMCGetCfg_def cfg_control0_def
      cfg_control1_def chip_bus_def datasheet_header_def zero_cfg_def chip0_def Let_def int8_t_def)

text \<open>
  Claim C2, amended: for every configuration value whose fields fit the bits they are
  packed into (mode and scale below 2, output data rate and oversample rate below 4), a
  successful \<open>QMCSetCfg\<close> (both control register writes reporting the full two-byte count)
  followed immediately by \<open>QMCGetCfg\<close> on an unchanged chip (both reads reporting one
  byte, the first delivering the byte just written to control register 1) yields mode,
  output data rate, oversample rate and scale each equal to the value that was set: the
  pack-into-control-byte encoding of \<open>QMCSetCfg\<close> and the shift-and-mask decoding of
  \<open>QMCGetCfg\<close> form a round trip on every field independently. The four values come from
  the decoding of the byte read, not from the session's cache: \<open>c\<close> below is whatever
  the cache holds when \<open>QMCGetCfg\<close> starts (the configuration \<open>QMCSetCfg\<close> has just cached
  is one such \<open>c\<close>), and the result does not depend on it. The header is one that
  places the fields where \<open>QMCGetCfg\<close> looks for them.
\<close>

theorem QMCSetCfg_QMCGetCfg_round_trip:
  assumes lay: "control1_layout k" and rng: "cfg_in_range cfg"
    and w0: "QMCWriteByte B k s QMC_CONTROL1 (cfg_control0 k cfg) = (2, s1)"
    and w1: "QMCWriteByte B k s1 QMC_CONTROL2 (cfg_control1 k cfg) = (2, s2)"
    and g0: "QMCReadBytes B k ((snd (QMCSetCfg B k s cfg))\<lparr>config := c\<rparr>) QMC_CONTROL1 1
               = (1, buf0, s3)"
    and same: "buf0 0 = cfg_control0 k cfg"
    and g1: "QMCReadBytes B k s3 QMC_CONTROL2 1 = (1, buf1, s4)"
  shows "fst (QMCSetCfg B k s cfg) = 0
       \<and> fst (QMCGetCfg B k ((snd (QMCSetCfg B k s cfg))\<lparr>config := c\<rparr>)) = int8_t (QMC_OK k)
       \<and> mode (config (snd (QMCGetCfg B k ((snd (QMCSetCfg B k s cfg))\<lparr>config := c\<rparr>))))
           = mode cfg
       \<and> ODR (config (snd (QMCGetCfg B k ((snd (QMCSetCfg B k s cfg))\<lparr>config := c\<rparr>))))
           = ODR cfg
       \<and> OSR (config (snd (QMCGetCfg B k ((snd (QMCSetCfg B k s cfg))\<lparr>config := c\<rparr>))))
           = OSR cfg
       \<and> scale (config (snd (QMCGetCfg B k ((snd (QMCSetCfg B k s cfg))\<lparr>config := c\<rparr>))))
           = scale cfg"
proof -
  have two: "int8_t 2 = 2" and one: "int8_t 1 = 1" by (simp_all add: int8_t_def)
  have set: "fst (QMCSetCfg B k s cfg) = 0"
    using w0 w1 by (simp add: QMCSetCfg_def Let_def two)
  have cfg4: "config s4 = c"
    using QMCReadBytes_config [OF g0] QMCReadBytes_config [OF g1] by simp
  note d = control0_decodes [OF lay rng]
  have get: "QMCGetCfg B k ((snd (QMCSetCfg B k s cfg))\<lparr>config := c\<rparr>) =
      (int8_t (QMC_OK k),
       s4\<lparr>config := c\<lparr>ODR := ODR cfg, OSR := OSR cfg, mode := mode cfg, scale := scale cfg\<rparr>\<rparr>)"
    using g0 g1 by (simp add: QMCGetCfg_def Let_def one same d cfg4)
  show ?thesis by (simp add: get set)
qed

theorem QMCSetCfg_QMCGetCfg_round_trip_witness:
  "control1_layout datasheet_header
   \<and> cfg_in_range (zero_cfg\<lparr>mode := 1, ODR := 2, OSR := 3, scale := 1\<rparr>)
   \<and> fst (QMCSetCfg chip_bus datasheet_header \<lparr>i2c = chip0, config = zero_cfg\<rparr>
            (zero_cfg\<lparr>mode := 1, ODR := 2, OSR := 3, scale := 1\<rparr>)) = 0
   \<and> mode (config (snd (QMCGetCfg chip_bus datasheet_header
        ((snd (QMCSetCfg chip_bus datasheet_header \<lparr>i2c = chip0, config = zero_cfg\<rparr>
           (zero_cfg\<lparr>mode := 1, ODR := 2, OSR := 3, scale := 1\<rparr>)))\<lparr>config := zero_cfg\<rparr>)))) = 1
   \<and> ODR (config (snd (QMCGetCfg chip_bus datasheet_header
        ((snd (QMCSetCfg chip_bus datasheet_header \<lparr>i2c = chip0, config = zero_cfg\<rparr>
           (zero_cfg\<lparr>mode := 1, ODR := 2, OSR := 3, scale := 1\<rparr>)))\<lparr>config := zero_cfg\<rparr>)))) = 2
   \<and> OSR (config (snd (QMCGetCfg chip_bus datasheet_header
        ((snd (QMCSetCfg chip_bus datasheet_header \<lparr>i2c = chip0, config = zero_cfg\<rparr>
           (zero_cfg\<lparr>mode := 1, ODR := 2, OSR := 3, scale := 1\<rparr>)))\<lparr>config := zero_cfg\<rparr>)))) = 3
   \<and> scale (config (snd (QMCGetCfg chip_bus datasheet_header
        ((snd (QMCSetCfg chip_bus datasheet_header \<lparr>i2c = chip0, config = zero_cfg\<rparr>
           (zero_cfg\<lparr>mode := 1, ODR := 2, OSR := 3, scale := 1\<rparr>)))\<lparr>config := zero_cfg\<rparr>)))) = 1"
proof -
  let ?cfg = "zero_cfg\<lparr>mode := 1, ODR := 2, OSR := 3, scale := 1\<rparr>"
  let ?s = "\<lparr>i2c = chip0, config = zero_cfg\<rparr>"
  let ?c1 = "\<lparr>regs = (regs chip0)(0x09 := cfg_control0 datasheet_header ?cfg), pointer = 0x09\<rparr>"
  let ?c2 = "\<lparr>regs = (regs ?c1)(0x0A := cfg_control1 datasheet_header ?cfg), pointer = 0x0A\<rparr>"
  have lay: "control1_layout datasheet_header"
    by (simp add: control1_layout_def datasheet_header_def)
  have rng: "cfg_in_range ?cfg" by (simp add: cfg_in_range_def zero_cfg_def)
  have w0: "QMCWriteByte chip_bus datasheet_header ?s QMC_CONTROL1
              (cfg_control0 datasheet_header ?cfg) = (2, ?s\<lparr>i2c := ?c1\<rparr>)"
    by (simp add: QMCWriteByte_def chip_bus_def datasheet_header_def)
  have w1: "QMCWriteByte chip_bus datasheet_header (?s\<lparr>i2c := ?c1\<rparr>) QMC_CONTROL2
              (cfg_control1 datasheet_header ?cfg) = (2, ?s\<lparr>i2c := ?c2\<rparr>)"
    by (simp add: QMCWriteByte_def chip_bus_def datasheet_header_def)
  have set: "(snd (QMCSetCfg chip_bus datasheet_header ?s ?cfg))\<lparr>config := zero_cfg\<rparr> =
      \<lparr>i2c = ?c2, config = zero_cfg\<rparr>"
    using w0 w1 by (simp add: QMCSetCfg_def Let_def int8_t_def)
  let ?t = "(snd (QMCSetCfg chip_bus datasheet_header ?s ?cfg))\<lparr>config := zero_cfg\<rparr>"
  let ?buf0 = "\<lambda>i. regs (?c2\<lparr>pointer := 0x09\<rparr>) (0x09 + of_nat i)"
  let ?buf1 = "\<lambda>i. regs (?c2\<lparr>pointer := 0x0A\<rparr>) (0x0A + of_nat i)"
  have g0: "QMCReadBytes chip_bus datasheet_header ?t QMC_CONTROL1 1
      = (1, ?buf0, ?t\<lparr>i2c := ?c2\<lparr>pointer := 0x09\<rparr>\<rparr>)"
    unfolding set by (simp add: QMCReadBytes_def chip_bus_def datasheet_header_def)
  have same: "?buf0 0 = cfg_control0 datasheet_header ?cfg" by simp
  have g1: "QMCReadBytes chip_bus datasheet_header (?t\<lparr>i2c := ?c2\<lparr>pointer := 0x09\<rparr>\<rparr>)
              QMC_CONTROL2 1 = (1, ?buf1, ?t\<lparr>i2c := ?c2\<lparr>pointer := 0x0A\<rparr>\<rparr>)"
    unfolding set by (simp add: QMCReadBytes_def chip_bus_def datasheet_header_def)
  show ?thesis
    using QMCSetCfg_QMCGetCfg_round_trip [OF lay rng w0 w1 g0 same g1] lay rng
    by (simp add: zero_cfg_def)
qed

text \<open>
  Claim C3. Let \<open>r0\<close> and \<open>r1\<close> be what the writes of control register 1 and 2 report.
  If both are 2, \<open>QMCSetCfg\<close> returns 0 and the session's configuration becomes the given
  one (with its two control bytes filled in); in every other case the configuration is
  the one the session had, and the value returned is the smaller of \<open>r0\<close> and \<open>r1\<close>.
\<close>

theorem QMCSetCfg_cache:
  assumes w0: "QMCWriteByte B k s QMC_CONTROL1 (cfg_control0 k cfg) = (r0, s1)"
    and w1: "QMCWriteByte B k s1 QMC_CONTROL2 (cfg_control1 k cfg) = (r1, s2)"
    and r0: "sdk_result 2 r0" and r1: "sdk_result 2 r1"
  shows "(r0 = 2 \<and> r1 = 2 \<longrightarrow>
            fst (QMCSetCfg B k s cfg) = 0 \<and>
            config (snd (QMCSetCfg B k s cfg)) =
              cfg\<lparr>control := (cfg_control0 k cfg, cfg_control1 k cfg)\<rparr>)
       \<and> (\<not> (r0 = 2 \<and> r1 = 2) \<longrightarrow>
            fst (QMCSetCfg B k s cfg) = min r0 r1 \<and>
            config (snd (QMCSetCfg B k s cfg)) = config s)"
proof -
  have i0: "int8_t r0 = r0" using r0 by (simp add: int8_t_sdk_result)
  have i1: "int8_t r1 = r1" using r1 by (simp add: int8_t_sdk_result)
  have c: "config s2 = config s"
    using QMCWriteByte_config [OF w0] QMCWriteByte_config [OF w1] by simp
  have unfold: "QMCSetCfg B k s cfg =
      (if r0 = 2 \<and> r1 = 2
       then (0, s2\<lparr>config := cfg\<lparr>control := (cfg_control0 k cfg, cfg_control1 k cfg)\<rparr>\<rparr>)
       else (if r0 < r1 then r0 else r1, s2))"
    using w0 w1 by (simp add: QMCSetCfg_def Let_def i0 i1)
  show ?thesis
    unfolding unfold using c by (simp add: min_def)
qed


theorem QMCSetCfg_cache_witness:
  "sdk_result 2 2 \<and> sdk_result 2 PICO_ERROR_TIMEOUT
   \<and> fst (QMCSetCfg chip_bus datasheet_header \<lparr>i2c = chip0, config = zero_cfg\<rparr>
            (zero_cfg\<lparr>mode := 1\<rparr>)) = 0
   \<and> config (snd (QMCSetCfg chip_bus datasheet_header \<lparr>i2c = chip0, config = zero_cfg\<rparr>
                     (zero_cfg\<lparr>mode := 1\<rparr>)))
       = zero_cfg\<lparr>mode := 1, control := (1, 0)\<rparr>
   \<and> fst (QMCSetCfg (with_write_report PICO_ERROR_TIMEOUT chip_bus) datasheet_header
            \<lparr>i2c = chip0, config = zero_cfg\<rparr> (zero_cfg\<lparr>mode := 1\<rparr>)) = - 1
   \<and> config (snd (QMCSetCfg (with_write_report PICO_ERROR_TIMEOUT chip_bus) datasheet_header
                     \<lparr>i2c = chip0, config = zero_cfg\<rparr> (zero_cfg\<lparr>mode := 1\<rparr>)))
       = zero_cfg"
proof -
  let ?cfg = "zero_cfg\<lparr>mode := 1\<rparr>"
  let ?s = "\<lparr>i2c = chip0, config = zero_cfg\<rparr>"
  let ?k = datasheet_header
  let ?c1 = "\<lparr>regs = (regs chip0)(0x09 := cfg_control0 ?k ?cfg), pointer = 0x09\<rparr>"
  let ?c2 = "\<lparr>regs = (regs ?c1)(0x0A := cfg_control1 ?k ?cfg), pointer = 0x0A\<rparr>"
  let ?T = "with_write_report PICO_ERROR_TIMEOUT chip_bus"
  have ok: "sdk_result 2 2" and to: "sdk_result 2 PICO_ERROR_TIMEOUT"
    by (simp_all add: sdk_result_def)
  have w0: "QMCWriteByte chip_bus ?k ?s QMC_CONTROL1 (cfg_control0 ?k ?cfg) = (2, ?s\<lparr>i2c := ?c1\<rparr>)"
    by (simp add: QMCWriteByte_def chip_bus_def datasheet_header_def)
  have w1: "QMCWriteByte chip_bus ?k (?s\<lparr>i2c := ?c1\<rparr>) QMC_CONTROL2 (cfg_control1 ?k ?cfg)
      = (2, ?s\<lparr>i2c := ?c2\<rparr>)"
    by (simp add: QMCWriteByte_def chip_bus_def datasheet_header_def)
  have t0: "QMCWriteByte ?T ?k ?s QMC_CONTROL1 (cfg_control0 ?k ?cfg)
      = (PICO_ERROR_TIMEOUT, ?s\<lparr>i2c := ?c1\<rparr>)"
    by (simp add: QMCWriteByte_def with_write_report_def chip_bus_def datasheet_header_def)
  have t1: "QMCWriteByte ?T ?k (?s\<lparr>i2c := ?c1\<rparr>) QMC_CONTROL2 (cfg_control1 ?k ?cfg)
      = (PICO_ERROR_TIMEOUT, ?s\<lparr>i2c := ?c2\<rparr>)"
    by (simp add: QMCWriteByte_def with_write_report_def chip_bus_def datasheet_header_def)
  have c: "cfg_control0 ?k ?cfg = 1" "cfg_control1 ?k ?cfg = 0"
    by (simp_all add: cfg_control0_def cfg_control1_def datasheet_header_def zero_cfg_def)
  show ?thesis
    using QMCSetCfg_cache [OF w0 w1 ok ok] QMCSetCfg_cache [OF t0 t1 to to] ok to
    by (simp add: c PICO_ERROR_TIMEOUT_def)
qed

subsection \<open>Configuration read\<close>

text \<open>
  Claim C7. Let \<open>r0\<close> and \<open>r1\<close> be what the reads of control register 1 and 2 report,
  each a result the bus can give for one byte, and let the header's invalid-configuration
  code be an \<open>int8_t\<close> value different from \<open>QMC_OK = 0\<close>, from the count 1 and from the two
  bus errors. Then \<open>QMCGetCfg\<close> returns the invalid-configuration code if and only if
  both reads report one byte and bit 1 or bit 5 of the byte read from control register 1
  is set; no other bit of that byte takes part. In particular a failed read never yields
  that code.
\<close>

theorem QMCGetCfg_invalid_iff:
  assumes g0: "QMCReadBytes B k s QMC_CONTROL1 1 = (r0, buf0, s1)"
    and g1: "QMCReadBytes B k s1 QMC_CONTROL2 1 = (r1, buf1, s2)"
    and r0: "sdk_result 1 r0" and r1: "sdk_result 1 r1"
    and ok: "QMC_OK k = 0"
    and inv: "- 128 \<le> QMC_ERROR_INVALID k" "QMC_ERROR_INVALID k \<le> 127"
      "QMC_ERROR_INVALID k \<notin> {0, 1, PICO_ERROR_TIMEOUT, PICO_ERROR_GENERIC}"
  shows "fst (QMCGetCfg B k s) = QMC_ERROR_INVALID k
         \<longleftrightarrow> r0 = 1 \<and> r1 = 1 \<and> (bit (buf0 0) 1 \<or> bit (buf0 0) 5)"
proof -
  have i0: "int8_t r0 = r0" using r0 by (simp add: int8_t_sdk_result)
  have i1: "int8_t r1 = r1" using r1 by (simp add: int8_t_sdk_result)
  have iv: "int8_t (QMC_ERROR_INVALID k) = QMC_ERROR_INVALID k"
    using inv by (simp add: int8_t_id)
  have z: "int8_t 0 = 0" by (simp add: int8_t_def)
  have unfold: "fst (QMCGetCfg B k s) =
      (if r0 = 1 \<and> r1 = 1
       then (if bit (buf0 0) 1 \<or> bit (buf0 0) 5 then QMC_ERROR_INVALID k else 0)
       else (if r0 < r1 then r0 else r1))"
    using g0 g1 reserved_bits [of "buf0 0"]
    by (simp add: QMCGetCfg_def Let_def i0 i1 iv z ok)
  have bad: "r0 \<noteq> QMC_ERROR_INVALID k" "r1 \<noteq> QMC_ERROR_INVALID k"
    using r0 r1 inv(3) by (auto simp: sdk_result_def)
  show ?thesis
    unfolding unfold using bad inv(3) by auto
qed

theorem QMCGetCfg_invalid_iff_witness:
  "sdk_result 1 1 \<and> QMC_OK datasheet_header = 0
   \<and> - 128 \<le> QMC_ERROR_INVALID datasheet_header \<and> QMC_ERROR_INVALID datasheet_header \<le> 127
   \<and> QMC_ERROR_INVALID datasheet_header \<notin> {0, 1, PICO_ERROR_TIMEOUT, PICO_ERROR_GENERIC}
   \<and> fst (QMCGetCfg chip_bus datasheet_header
           \<lparr>i2c = \<lparr>regs = (\<lambda>_. 0)(0x09 := 0x21), pointer = 0\<rparr>, config = zero_cfg\<rparr>)
       = QMC_ERROR_INVALID datasheet_header
   \<and> fst (QMCGetCfg chip_bus datasheet_header
           \<lparr>i2c = \<lparr>regs = (\<lambda>_. 0)(0x09 := 0xDD), pointer = 0\<rparr>, config = zero_cfg\<rparr>)
       \<noteq> QMC_ERROR_INVALID datasheet_header"
proof -
  let ?k = datasheet_header
  let ?bad = "\<lparr>regs = (\<lambda>_. 0)(0x09 := 0x21), pointer = 0\<rparr>"
  let ?good = "\<lparr>regs = (\<lambda>_. 0)(0x09 := 0xDD), pointer = 0\<rparr>"
  have one: "sdk_result 1 1" by (simp add: sdk_result_def)
  have ok: "QMC_OK ?k = 0" by (simp add: datasheet_header_def)
  have inv: "- 128 \<le> QMC_ERROR_INVALID ?k" "QMC_ERROR_INVALID ?k \<le> 127"
    "QMC_ERROR_INVALID ?k \<notin> {0, 1, PICO_ERROR_TIMEOUT, PICO_ERROR_GENERIC}"
    by (simp_all add: datasheet_header_def PICO_ERROR_TIMEOUT_def PICO_ERROR_GENERIC_def)
  have b0: "QMCReadBytes chip_bus ?k \<lparr>i2c = ?bad, config = zero_cfg\<rparr> QMC_CONTROL1 1
      = (1, (\<lambda>i. regs ?bad (0x09 + of_nat i)), \<lparr>i2c = ?bad\<lparr>pointer := 0x09\<rparr>, config = zero_cfg\<rparr>)"
    by (simp add: QMCReadBytes_def chip_bus_def datasheet_header_def)
  have b1: "QMCReadBytes chip_bus ?k \<lparr>i2c = ?bad\<lparr>pointer := 0x09\<rparr>, config = zero_cfg\<rparr> QMC_CONTROL2 1
      = (1, (\<lambda>i. regs ?bad (0x0A + of_nat i)), \<lparr>i2c = ?bad\<lparr>pointer := 0x0A\<rparr>, config = zero_cfg\<rparr>)"
    by (simp add: QMCReadBytes_def chip_bus_def datasheet_header_def)
  have c0: "QMCReadBytes chip_bus ?k \<lparr>i2c = ?good, config = zero_cfg\<rparr> QMC_CONTROL1 1
      = (1, (\<lambda>i. regs ?good (0x09 + of_nat i)), \<lparr>i2c = ?good\<lparr>pointer := 0x09\<rparr>, config = zero_cfg\<rparr>)"
    by (simp add: QMCReadBytes_def chip_bus_def datasheet_header_def)
  have c1: "QMCReadBytes chip_bus ?k \<lparr>i2c = ?good\<lparr>pointer := 0x09\<rparr>, config = zero_cfg\<rparr> QMC_CONTROL2 1
      = (1, (\<lambda>i. regs ?good (0x0A + of_nat i)), \<lparr>i2c = ?good\<lparr>pointer := 0x0A\<rparr>, config = zero_cfg\<rparr>)"
    by (simp add: QMCReadBytes_def chip_bus_def datasheet_header_def)
  show ?thesis
    using QMCGetCfg_invalid_iff [OF b0 b1 one one ok inv]
      QMCGetCfg_invalid_iff [OF c0 c1 one one ok inv] one ok inv
    by simp
qed


subsection \<open>The selector write of a read\<close>

lemma QMCReadBytes_with_write_report:
  "QMCReadBytes (with_write_report c B) k s reg len = QMCReadBytes B k s reg len"
  by (simp add: QMCReadBytes_def with_write_report_def split: prod.splits)

text \<open>
  Claim C10. Whatever the register-selector write reports, \<open>QMCReadBytes\<close> gives the same
  result, buffer and session: its result is the result of the data read that follows the
  write. So every read operation of the driver (status, configuration, vector,
  temperature) is unchanged when the selector writes report any other value \<open>c\<close>, and
  \<open>QMCGetStatus\<close> returns 0 when the selector write times out and the data read reports
  one byte.
\<close>

theorem QMCReadBytes_ignores_selector_write:
  "QMCReadBytes (with_write_report c B) k s reg len = QMCReadBytes B k s reg len
   \<and> fst (QMCReadBytes B k s reg len) =
       fst (i2c_read_timeout_per_char_us B
              (snd (i2c_write_timeout_per_char_us B (i2c s) (QMC_ADDR k)
                      [QMCRegister_value k reg] True (QMC_TIMEOUT k)))
              (QMC_ADDR k) len False (QMC_TIMEOUT k))
   \<and> QMCGetStatus (with_write_report c B) k s st = QMCGetStatus B k s st
   \<and> QMCGetCfg (with_write_report c B) k s = QMCGetCfg B k s
   \<and> QMCGetMag (with_write_report c B) k s data = QMCGetMag B k s data
   \<and> QMCGetTemp (with_write_report c B) k s t = QMCGetTemp B k s t
   \<and> (fst (QMCReadBytes B k s QMC_STATUS 1) = 1 \<longrightarrow>
        fst (QMCGetStatus (with_write_report PICO_ERROR_TIMEOUT B) k s st) = 0)"
proof -
  have rd: "fst (QMCReadBytes B k s reg len) =
       fst (i2c_read_timeout_per_char_us B
              (snd (i2c_write_timeout_per_char_us B (i2c s) (QMC_ADDR k)
                      [QMCRegister_value k reg] True (QMC_TIMEOUT k)))
              (QMC_ADDR k) len False (QMC_TIMEOUT k))"
    by (simp add: QMCReadBytes_def split: prod.splits)
  have st: "fst (QMCReadBytes B k s QMC_STATUS 1) = 1 \<longrightarrow>
        fst (QMCGetStatus (with_write_report PICO_ERROR_TIMEOUT B) k s st) = 0"
    by (auto simp: QMCGetStatus_def QMCReadBytes_with_write_report Let_def int8_t_def
        split: prod.splits)
  show ?thesis
    using rd st
    by (simp add: QMCReadBytes_with_write_report QMCGetStatus_def QMCGetCfg_def QMCGetMag_def
        QMCGetTemp_def)
qed

theorem QMCReadBytes_ignores_selector_write_witness:
  "fst (QMCReadBytes chip_bus datasheet_header \<lparr>i2c = chip0, config = zero_cfg\<rparr> QMC_STATUS 1) = 1
   \<and> fst (i2c_write_timeout_per_char_us (with_write_report PICO_ERROR_TIMEOUT chip_bus) chip0
            (QMC_ADDR datasheet_header) [QMCRegister_value datasheet_header QMC_STATUS] True
            (QMC_TIMEOUT datasheet_header)) = PICO_ERROR_TIMEOUT
   \<and> fst (QMCGetStatus (with_write_report PICO_ERROR_TIMEOUT chip_bus) datasheet_header
            \<lparr>i2c = chip0, config = zero_cfg\<rparr>
            \<lparr>dataReady = False, dataOverflow = False, dataSkip = False\<rparr>) = 0"
proof -
  have r: "fst (QMCReadBytes chip_bus datasheet_header \<lparr>i2c = chip0, config = zero_cfg\<rparr>
                  QMC_STATUS 1) = 1"
    by (simp add: QMCReadBytes_def chip_bus_def Let_def)
  have w: "fst (i2c_write_timeout_per_char_us (with_write_report PICO_ERROR_TIMEOUT chip_bus)
            chip0 (QMC_ADDR datasheet_header) [QMCRegister_value datasheet_header QMC_STATUS]
            True (QMC_TIMEOUT datasheet_header)) = PICO_ERROR_TIMEOUT"
    by (simp add: with_write_report_def)
  note all = QMCReadBytes_ignores_selector_write [of PICO_ERROR_TIMEOUT chip_bus
      datasheet_header "\<lparr>i2c = chip0, config = zero_cfg\<rparr>" QMC_STATUS 1
      "\<lparr>dataReady = False, dataOverflow = False, dataSkip = False\<rparr>"]
  from all have "fst (QMCReadBytes chip_bus datasheet_header \<lparr>i2c = chip0, config = zero_cfg\<rparr>
                  QMC_STATUS 1) = 1 \<longrightarrow>
      fst (QMCGetStatus (with_write_report PICO_ERROR_TIMEOUT chip_bus) datasheet_header
            \<lparr>i2c = chip0, config = zero_cfg\<rparr>
            \<lparr>dataReady = False, dataOverflow = False, dataSkip = False\<rparr>) = 0"
    by blast
  with r w show ?thesis by blast
qed

subsection \<open>A bus that always times out\<close>

lemma QMCReadBytes_timeout_bus:
  "QMCReadBytes (timeout_bus g) k s reg len = (PICO_ERROR_TIMEOUT, g, s)"
  by (simp add: QMCReadBytes_def timeout_bus_def)

lemma hp203_exchange_timeout_bus:
  "hp203_exchange (timeout_bus g) h cmd len = (HP203_ERROR_TIMEOUT, None, h)"
  by (simp add: hp203_exchange_def timeout_bus_def hp203_status_def PICO_ERROR_TIMEOUT_def
      HP203_ERROR_TIMEOUT_def HP203_OK_def)

text \<open>
  Claim C9. On the bus on which every read and write reports a timeout, with a header
  whose timeout code is the bus's and whose generic code is a different one: \<open>QMCTest\<close>
  and \<open>QMCGetMag\<close> return the timeout code, and \<open>QMCGetMag\<close> does not return the generic
  code; \<open>HP203Test\<close> and \<open>HP203GetPres\<close> (modelled from the specification) return
  \<open>HP203_ERROR_TIMEOUT\<close>, and \<open>HP203GetPres\<close> does not return \<open>HP203_ERROR_GENERIC\<close>.
\<close>

theorem timeout_bus_reports_timeout:
  assumes t: "QMC_ERROR_TIMEOUT k = PICO_ERROR_TIMEOUT"
    and gen: "QMC_ERROR_GENERIC k \<noteq> QMC_ERROR_TIMEOUT k"
  shows "fst (QMCTest (timeout_bus g) k s) = QMC_ERROR_TIMEOUT k
       \<and> fst (QMCGetMag (timeout_bus g) k s data) = QMC_ERROR_TIMEOUT k
       \<and> fst (QMCGetMag (timeout_bus g) k s data) \<noteq> QMC_ERROR_GENERIC k
       \<and> fst (HP203Test (timeout_bus g) probe expected h) = HP203_ERROR_TIMEOUT
       \<and> fst (HP203GetPres (timeout_bus g) pascals h result) = HP203_ERROR_TIMEOUT
       \<and> fst (HP203GetPres (timeout_bus g) pascals h result) \<noteq> HP203_ERROR_GENERIC"
proof -
  have m: "int8_t (- 1) = - 1" by (simp add: int8_t_def)
  have cfg: "QMCGetCfg (timeout_bus g) k s = (- 1, s)"
    by (simp add: QMCGetCfg_def QMCReadBytes_timeout_bus PICO_ERROR_TIMEOUT_def m)
  have test: "fst (QMCTest (timeout_bus g) k s) = QMC_ERROR_TIMEOUT k"
    by (simp add: QMCTest_def cfg t PICO_ERROR_TIMEOUT_def)
  have mag: "fst (QMCGetMag (timeout_bus g) k s data) = QMC_ERROR_TIMEOUT k"
    by (simp add: QMCGetMag_def QMCReadBytes_timeout_bus t PICO_ERROR_TIMEOUT_def m)
  have hp1: "fst (HP203Test (timeout_bus g) probe expected h) = HP203_ERROR_TIMEOUT"
    by (simp add: HP203Test_def hp203_exchange_timeout_bus)
  have hp2: "fst (HP203GetPres (timeout_bus g) pascals h result) = HP203_ERROR_TIMEOUT"
    by (simp add: HP203GetPres_def hp203_exchange_timeout_bus)
  have ne: "HP203_ERROR_TIMEOUT \<noteq> HP203_ERROR_GENERIC"
    by (simp add: HP203_ERROR_TIMEOUT_def HP203_ERROR_GENERIC_def)
  show ?thesis
    using test mag hp1 hp2 ne gen by simp
qed

theorem timeout_bus_reports_timeout_witness:
  "QMC_ERROR_TIMEOUT datasheet_header = PICO_ERROR_TIMEOUT
   \<and> QMC_ERROR_GENERIC datasheet_header \<noteq> QMC_ERROR_TIMEOUT datasheet_header
   \<and> fst (QMCTest (timeout_bus (\<lambda>_. 0)) datasheet_header \<lparr>i2c = (), config = zero_cfg\<rparr>) = - 1
   \<and> fst (QMCGetMag (timeout_bus (\<lambda>_. 0)) datasheet_header \<lparr>i2c = (), config = zero_cfg\<rparr>
            (0, 0, 0)) = - 1
   \<and> fst (HP203Test (timeout_bus (\<lambda>_. 0)) HP203_READ_REG (\<lambda>_. True) \<lparr>hp203_i2c = ()\<rparr>) = - 1
   \<and> fst (HP203GetPres (timeout_bus (\<lambda>_. 0)) (\<lambda>_. 0) \<lparr>hp203_i2c = ()\<rparr> 0) = - 1"
proof -
  have t: "QMC_ERROR_TIMEOUT datasheet_header = PICO_ERROR_TIMEOUT"
    by (simp add: datasheet_header_def PICO_ERROR_TIMEOUT_def)
  have gen: "QMC_ERROR_GENERIC datasheet_header \<noteq> QMC_ERROR_TIMEOUT datasheet_header"
    by (simp add: datasheet_header_def)
  show ?thesis
    using timeout_bus_reports_timeout [OF t gen, of "\<lambda>_. 0" "\<lparr>i2c = (), config = zero_cfg\<rparr>"
        "(0, 0, 0)" HP203_READ_REG "\<lambda>_. True" "\<lparr>hp203_i2c = ()\<rparr>" "\<lambda>_. 0" 0] t gen
    by (simp add: PICO_ERROR_TIMEOUT_def HP203_ERROR_TIMEOUT_def)
qed


section \<open>Properties of the line framer\<close>

lemma uartRX_in_bounds: "buffers_sized s \<Longrightarrow> uartRX rx s \<noteq> Inl WriteOutOfBounds"
proof (cases rx)
  case None
  then show ?thesis by (simp add: uartRX_def)
next
  case (Some ch)
  assume "buffers_sized s"
  then show ?thesis
    by (cases "ch = CHR ''$''")
      (simp_all add: Some uartRX_def buffers_sized_def Let_def split: option.split)
qed

lemma uartRX_sized: "buffers_sized s \<Longrightarrow> uartRX rx s = Inr s' \<Longrightarrow> buffers_sized s'"
proof (cases rx)
  case None
  then show "buffers_sized s \<Longrightarrow> uartRX rx s = Inr s' \<Longrightarrow> buffers_sized s'"
    by (simp add: uartRX_def)
next
  case (Some ch)
  assume a: "buffers_sized s" "uartRX rx s = Inr s'"
  define s1 where "s1 = (if ch = CHR ''$'' then s\<lparr>copying := True, index := 0\<rparr> else s)"
  have s1: "buffers_sized s1" using a(1) by (simp add: s1_def buffers_sized_def)
  define s2 where
    "s2 = s1\<lparr>uartBuf := (uartBuf s1)[unat (index s1) := ch], index := index s1 + 1\<rparr>"
  have s2: "buffers_sized s2" using s1 by (simp add: s2_def buffers_sized_def)
  have s3: "buffers_sized (s2\<lparr>frameBuf := take (length (frameBuf s2)) (uartBuf s2)\<rparr>)"
    using s2 by (simp add: buffers_sized_def)
  have "s' = s1 \<or> s' = s2 \<or> s' = s2\<lparr>frameBuf := take (length (frameBuf s2)) (uartBuf s2)\<rparr>"
    using a(2) unfolding Some uartRX_def option.case Let_def s1_def [symmetric] s2_def [symmetric]
    by (auto split: if_splits option.splits)
  with s1 s2 s3 show "buffers_sized s'" by auto
qed

lemma feed_in_bounds: "buffers_sized s \<Longrightarrow> feed s bs \<noteq> Inl WriteOutOfBounds"
proof (induction bs arbitrary: s)
  case Nil
  then show ?case by simp
next
  case (Cons c cs)
  show ?case
  proof (cases "uartRX (Some c) s")
    case (Inl e)
    with uartRX_in_bounds [OF Cons.prems, of "Some c"] show ?thesis by simp
  next
    case (Inr s')
    with Cons.IH [OF uartRX_sized [OF Cons.prems Inr]] show ?thesis by simp
  qed
qed

lemma index_step: "unat (i :: 8 word) < 80 \<Longrightarrow> unat (i + 1) = unat i + 1"
  by (simp add: unat_word_ariths)

lemma uartRX_start:
  assumes "buffers_sized s"
  shows "\<exists>s'. uartRX (Some (CHR ''$'')) s = Inr s' \<and> frameBuf s' = frameBuf s \<and> copying s'
          \<and> unat (index s') = 1 \<and> buffers_sized s'"
  using assms by (simp add: uartRX_def buffers_sized_def Let_def MINMEA_MAX_SENTENCE_LENGTH_def)

lemma uartRX_plain:
  assumes "buffers_sized s" "copying s" "unat (index s) < MINMEA_MAX_SENTENCE_LENGTH"
    "c \<noteq> CHR ''$''" "c \<noteq> CHR 0x0A"
  shows "\<exists>s'. uartRX (Some c) s = Inr s' \<and> frameBuf s' = frameBuf s \<and> copying s'
          \<and> unat (index s') = unat (index s) + 1 \<and> buffers_sized s'"
  using assms
  by (simp add: uartRX_def buffers_sized_def Let_def MINMEA_MAX_SENTENCE_LENGTH_def index_step)

text \<open>Once the index has reached the capacity, only a start delimiter changes anything.\<close>

lemma uartRX_full:
  assumes "\<not> unat (index s) < MINMEA_MAX_SENTENCE_LENGTH" "c \<noteq> CHR ''$''"
  shows "uartRX (Some c) s = Inr s"
  using assms by (simp add: uartRX_def Let_def)

lemma feed_full:
  assumes "\<not> unat (index s) < MINMEA_MAX_SENTENCE_LENGTH" "CHR ''$'' \<notin> set bs"
  shows "feed s bs = Inr s"
  using assms by (induction bs) (auto simp: uartRX_full)

lemma feed_plain:
  assumes "buffers_sized s" "copying s" "CHR ''$'' \<notin> set bs"
    "CHR 0x0A \<notin> set (take (MINMEA_MAX_SENTENCE_LENGTH - unat (index s)) bs)"
  shows "\<exists>s'. feed s bs = Inr s' \<and> frameBuf s' = frameBuf s"
  using assms
proof (induction bs arbitrary: s)
  case Nil
  then show ?case by simp
next
  case (Cons c cs)
  show ?case
  proof (cases "unat (index s) < MINMEA_MAX_SENTENCE_LENGTH")
    case False
    from feed_full [OF False Cons.prems(3)] have "feed s (c # cs) = Inr s" .
    then show ?thesis by simp
  next
    case True
    then obtain n where n: "MINMEA_MAX_SENTENCE_LENGTH - unat (index s) = Suc n"
      by (metis Suc_diff_Suc)
    from Cons.prems(4) have c: "c \<noteq> CHR 0x0A" and cs: "CHR 0x0A \<notin> set (take n cs)"
      unfolding n by auto
    from Cons.prems(3) have d: "c \<noteq> CHR ''$''" "CHR ''$'' \<notin> set cs" by auto
    from uartRX_plain [OF Cons.prems(1,2) True d(1) c] obtain s1 where
      s1: "uartRX (Some c) s = Inr s1" "frameBuf s1 = frameBuf s" "copying s1"
        "unat (index s1) = unat (index s) + 1" "buffers_sized s1" by blast
    from n s1(4) have "MINMEA_MAX_SENTENCE_LENGTH - unat (index s1) = n" by simp
    with cs have cs': "CHR 0x0A \<notin> set (take (MINMEA_MAX_SENTENCE_LENGTH - unat (index s1)) cs)"
      by simp
    from Cons.IH [OF s1(5) s1(3) d(2) cs'] obtain s' where
      "feed s1 cs = Inr s'" "frameBuf s' = frameBuf s1"
      by blast
    with s1 show ?thesis by simp
  qed
qed

text \<open>
  Claim C4. The claim says that a complete sentence without the type marker leaves the
  published frame unchanged. From boot, the sentence \<open>$GPGGA,0000\<close> CR LF is published;
  the following sentence \<open>$\<close> CR LF holds no \<open>GGA\<close>, but it overwrites only the first three
  bytes of \<open>uartBuf\<close>, and \<open>strstr\<close> finds the \<open>GGA\<close> the earlier sentence left behind at
  positions 3 to 5: the frame is replaced by \<open>$\<close> CR LF \<open>GGA,0000\<close> CR LF, which is
  neither the old frame nor the bytes of the new sentence.
\<close>

theorem uartRX_stale_marker_publishes:
  "(case feed boot (''$GPGGA,0000'' @ CRLF) of
      Inl e \<Rightarrow> False
    | Inr s \<Rightarrow> c_string (frameBuf s) = Some (''$GPGGA,0000'' @ CRLF))
   \<and> \<not> strstr (''$'' @ CRLF) ''GGA''
   \<and> (case feed boot (''$GPGGA,0000'' @ CRLF @ ''$'' @ CRLF) of
        Inl e \<Rightarrow> False
      | Inr s \<Rightarrow> c_string (frameBuf s) = Some (''$'' @ CRLF @ ''GGA,0000'' @ CRLF))"
  by code_simp

text \<open>
  What holds of the capacity. From every state whose two buffers have the fixed
  capacity, no handler invocation stores outside \<open>uartBuf\<close>, whatever the UART delivers,
  and so none does in the course of any sequence of input bytes (a run of the model ends
  only where a \<open>strstr\<close> scan leaves the array). And a sentence that
  reaches the capacity before its terminator (a start delimiter followed by at least
  \<open>MINMEA_MAX_SENTENCE_LENGTH - 1\<close> bytes with no line feed among the first
  \<open>MINMEA_MAX_SENTENCE_LENGTH - 1\<close> of them and no further start delimiter) leaves the
  published frame as it was up to the next start delimiter, a late terminator included.
\<close>

theorem uartRX_capacity:
  assumes "buffers_sized s"
  shows "uartRX rx s \<noteq> Inl WriteOutOfBounds
       \<and> feed s input \<noteq> Inl WriteOutOfBounds
       \<and> (MINMEA_MAX_SENTENCE_LENGTH - 1 \<le> length bs \<and> CHR ''$'' \<notin> set bs
            \<and> CHR 0x0A \<notin> set (take (MINMEA_MAX_SENTENCE_LENGTH - 1) bs)
          \<longrightarrow> (\<exists>s'. feed s (CHR ''$'' # bs) = Inr s' \<and> frameBuf s' = frameBuf s))"
proof (intro conjI impI)
  show "uartRX rx s \<noteq> Inl WriteOutOfBounds" using assms by (rule uartRX_in_bounds)
next
  show "feed s input \<noteq> Inl WriteOutOfBounds" using assms by (rule feed_in_bounds)
next
  assume a: "MINMEA_MAX_SENTENCE_LENGTH - 1 \<le> length bs \<and> CHR ''$'' \<notin> set bs
            \<and> CHR 0x0A \<notin> set (take (MINMEA_MAX_SENTENCE_LENGTH - 1) bs)"
  from uartRX_start [OF assms] obtain s1 where
      s1: "uartRX (Some (CHR ''$'')) s = Inr s1" "frameBuf s1 = frameBuf s" "copying s1"
        "unat (index s1) = 1" "buffers_sized s1" by blast
  from a s1(4) have nl: "CHR 0x0A \<notin> set (take (MINMEA_MAX_SENTENCE_LENGTH - unat (index s1)) bs)"
    by simp
  from a have d: "CHR ''$'' \<notin> set bs" by simp
  from feed_plain [OF s1(5) s1(3) d nl] s1
  show "\<exists>s'. feed s (CHR ''$'' # bs) = Inr s' \<and> frameBuf s' = frameBuf s"
    by auto
qed

theorem uartRX_capacity_witness:
  "buffers_sized boot
   \<and> MINMEA_MAX_SENTENCE_LENGTH - 1 \<le> length (replicate 90 (CHR ''G'') @ CRLF)
   \<and> CHR ''$'' \<notin> set (replicate 90 (CHR ''G'') @ CRLF)
   \<and> CHR 0x0A \<notin> set (take (MINMEA_MAX_SENTENCE_LENGTH - 1) (replicate 90 (CHR ''G'') @ CRLF))
   \<and> feed boot (CHR ''$'' # replicate 90 (CHR ''G'') @ CRLF) \<noteq> Inl WriteOutOfBounds
   \<and> (\<exists>s'. feed boot (CHR ''$'' # replicate 90 (CHR ''G'') @ CRLF) = Inr s'
            \<and> frameBuf s' = frameBuf boot)"
proof -
  have b: "buffers_sized boot"
    by (simp add: buffers_sized_def boot_def)
  have h: "MINMEA_MAX_SENTENCE_LENGTH - 1 \<le> length (replicate 90 (CHR ''G'') @ CRLF)"
    "CHR ''$'' \<notin> set (replicate 90 (CHR ''G'') @ CRLF)"
    "CHR 0x0A \<notin> set (take (MINMEA_MAX_SENTENCE_LENGTH - 1) (replicate 90 (CHR ''G'') @ CRLF))"
    by (simp_all add: MINMEA_MAX_SENTENCE_LENGTH_def CRLF_def)
  show ?thesis
    using uartRX_capacity [OF b, of None "CHR ''$'' # replicate 90 (CHR ''G'') @ CRLF"
        "replicate 90 (CHR ''G'') @ CRLF"] b h
    by blast
qed

text \<open>
  Claim C5. The claim says that every store of the handler is in bounds, and that a
  sentence that exceeds the capacity before its terminator is never published, not even
  partially. The stores are in bounds (\<open>uartRX_capacity\<close>), and the over-long sentence
  publishes nothing while it is received; but its first 80 bytes stay in \<open>uartBuf\<close>, and
  the next published sentence takes them along. From boot, a start delimiter followed by
  ninety \<open>G\<close> and CR LF leaves the frame empty; the sentence \<open>$GPGGA,1\<close> CR LF that follows
  overwrites ten bytes of \<open>uartBuf\<close>, \<open>strstr\<close> finds its \<open>GGA\<close>, and \<open>memcpy\<close> publishes the
  whole array: the ten bytes of the new sentence followed by seventy bytes of the
  discarded one.
\<close>

theorem uartRX_discarded_sentence_published_later:
  "(case feed boot (CHR ''$'' # replicate 90 (CHR ''G'') @ CRLF) of
      Inl e \<Rightarrow> False
    | Inr s \<Rightarrow> frameBuf s = frameBuf boot)
   \<and> (case feed boot (CHR ''$'' # replicate 90 (CHR ''G'') @ CRLF @ ''$GPGGA,1'' @ CRLF) of
        Inl e \<Rightarrow> False
      | Inr s \<Rightarrow> frameBuf s = ''$GPGGA,1'' @ CRLF @ replicate 70 (CHR ''G''))"
  by code_simp

section \<open>Properties of the telemetry packet\<close>

lemma word16_of_bytes16: "word16_of (ucast w) (ucast (drop_bit 8 w)) = (w :: 16 word)"
  by (rule bit_word_eqI) (auto simp: word16_of_def bit_simps)

lemma word32_of_bytes32:
  "word32_of (ucast w) (ucast (drop_bit 8 w)) (ucast (drop_bit 16 w)) (ucast (drop_bit 24 w))
     = (w :: 32 word)"
proof (rule bit_word_eqI)
  fix n :: nat
  assume "n < LENGTH(32)"
  then have n: "n < 32" by simp
  consider "n < 8" | "8 \<le> n" "n < 16" | "16 \<le> n" "n < 24" | "24 \<le> n"
    by linarith
  then show "bit (word32_of (ucast w) (ucast (drop_bit 8 w)) (ucast (drop_bit 16 w))
                 (ucast (drop_bit 24 w))) n = bit w n"
    using n by cases (auto simp: word32_of_def bit_simps)
qed

lemma length_packet_bytes: "length (packet_bytes p) = sizeof_packet"
  by (simp add: packet_bytes_def sizeof_packet_def bytes32_def bytes16_def bytes16x3_def
      split: prod.split)

lemma packet_of_packet_bytes: "packet_of_bytes (packet_bytes p) = Some p"
proof -
  obtain hh mm ss where u: "time_utc p = (hh, mm, ss)" by (cases "time_utc p") auto
  obtain a0 a1 a2 where a: "accl p = (a0, a1, a2)" by (cases "accl p") auto
  obtain g0 g1 g2 where g: "gyro p = (g0, g1, g2)" by (cases "gyro p") auto
  have bs: "packet_bytes p =
     [ucast (seq_no p), ucast (drop_bit 8 (seq_no p)), ucast (drop_bit 16 (seq_no p)),
      ucast (drop_bit 24 (seq_no p)),
      vid p, state p,
      ucast (time_ms p), ucast (drop_bit 8 (time_ms p)), ucast (drop_bit 16 (time_ms p)),
      ucast (drop_bit 24 (time_ms p)),
      hh, mm, ss,
      ucast (lat p), ucast (drop_bit 8 (lat p)), ucast (drop_bit 16 (lat p)),
      ucast (drop_bit 24 (lat p)),
      ucast (lng p), ucast (drop_bit 8 (lng p)), ucast (drop_bit 16 (lng p)),
      ucast (drop_bit 24 (lng p)),
      sat p,
      ucast (pres p), ucast (drop_bit 8 (pres p)), ucast (drop_bit 16 (pres p)),
      ucast (drop_bit 24 (pres p)),
      ucast (temp p), ucast (drop_bit 8 (temp p)),
      ucast a0, ucast (drop_bit 8 a0), ucast a1, ucast (drop_bit 8 a1),
      ucast a2, ucast (drop_bit 8 a2),
      ucast g0, ucast (drop_bit 8 g0), ucast g1, ucast (drop_bit 8 g1),
      ucast g2, ucast (drop_bit 8 g2)]"
    by (simp add: packet_bytes_def bytes32_def bytes16_def bytes16x3_def u a g)
  show ?thesis
    unfolding bs packet_of_bytes_def
    by (simp add: sizeof_packet_def word16_of_bytes16 word32_of_bytes32
        u [symmetric] a [symmetric] g [symmetric])
qed

text \<open>
  Claim C6. For every packet, reading the bytes handed to the radio back in the fixed
  field order gives the packet again, every field exactly, and the number of bytes is
  the same for every packet: \<open>sizeof(struct packet)\<close>, which is 40.
\<close>

theorem packet_round_trip:
  "packet_of_bytes (packet_bytes p) = Some p
   \<and> length (packet_bytes p) = sizeof_packet \<and> sizeof_packet = 40"
  by (simp add: packet_of_packet_bytes length_packet_bytes) (simp add: sizeof_packet_def)

text \<open>The specification's example: the bytes on the wire, and the fields read back.\<close>

theorem packet_round_trip_example:
  "packet_bytes example_packet =
     [7, 0, 0, 0, 3, 0x52, 0, 0, 0, 0, 0, 0, 0, 0x9D, 0x7E, 0xFF, 0xFF, 0xA0, 0x4F, 2, 0,
      6, 0xCD, 0x8B, 1, 0, 0x66, 8, 1, 0, 2, 0, 3, 0, 4, 0, 5, 0, 6, 0]
   \<and> packet_of_bytes (packet_bytes example_packet) = Some example_packet
   \<and> sint (lat example_packet) = - 33123 \<and> unat (lng example_packet) = 151456
   \<and> length (packet_bytes example_packet) = 40"
proof -
  have "packet_bytes example_packet =
     [7, 0, 0, 0, 3, 0x52, 0, 0, 0, 0, 0, 0, 0, 0x9D, 0x7E, 0xFF, 0xFF, 0xA0, 0x4F, 2, 0,
      6, 0xCD, 0x8B, 1, 0, 0x66, 8, 1, 0, 2, 0, 3, 0, 4, 0, 5, 0, 6, 0]"
    by (simp add: packet_bytes_def example_packet_def bytes32_def bytes16_def bytes16x3_def)
  moreover have "sint (lat example_packet) = - 33123" "unat (lng example_packet) = 151456"
    by (simp_all add: example_packet_def)
  ultimately show ?thesis
    using packet_round_trip [of example_packet] by simp
qed

end
